theory Spec2Isabelle
  imports Main "HOL-Library.Word"
begin

section \<open>JavaScript values used by the gateway\<close>

text \<open>
  The gateway (\<^verbatim>\<open>server.js\<close>) is an Express application of six route handlers. Five
  translate one HTTP request into calls of the object storage client and map the reply
  to a response; the sixth is the health check. The model keeps the handlers' control
  flow, the objects they build and the order of their storage calls; the storage service
  itself is a parameter.

  Strings are \<^typ>\<open>string\<close>: sequences of code units below 256. A JavaScript number is
  modelled where the program produces one: the results of \<^verbatim>\<open>parseInt\<close>, array lengths
  and byte counts are integer valued, so \<open>number\<close> holds the integer-valued doubles, the
  two zeros, the infinities and NaN.
\<close>

type_synonym bytes = "8 word list"

datatype number = NaN | NegZero | Finite int | PosInfinity | NegInfinity

text \<open>ToBoolean on a number: \<^verbatim>\<open>NaN\<close>, \<^verbatim>\<open>+0\<close> and \<^verbatim>\<open>-0\<close> are falsy.\<close>

fun truthy :: "number \<Rightarrow> bool" where
  "truthy NaN = False"
| "truthy NegZero = False"
| "truthy (Finite n) = (n \<noteq> 0)"
| "truthy PosInfinity = True"
| "truthy NegInfinity = True"

text \<open>\<^verbatim>\<open>a || b\<close> on numbers: the left operand when it is truthy, else the right one.\<close>

definition or_else :: "number \<Rightarrow> number \<Rightarrow> number" where
  "or_else a b = (if truthy a then a else b)"

subsection \<open>Rounding an integer to a double\<close>

fun bitlen :: "int \<Rightarrow> nat" where
  "bitlen n = (if n \<le> 0 then 0 else Suc (bitlen (n div 2)))"

declare bitlen.simps [simp del]

text \<open>
  The nearest double of a magnitude \<open>m \<ge> 0\<close>, ties to even: numbers below \<open>2^53\<close> are
  doubles; a longer number keeps its 53 leading bits, rounded on the bits dropped.
\<close>

definition round_double :: "int \<Rightarrow> int" where
  "round_double m =
     (if m < 2 ^ 53 then m
      else let e = bitlen m - 53;
               q = m div 2 ^ e;
               r = m mod 2 ^ e;
               q' = (if 2 ^ e < 2 * r \<or> (2 * r = 2 ^ e \<and> odd q) then q + 1 else q)
           in q' * 2 ^ e)"

text \<open>The Number for \<open>sign * m\<close> with \<open>m > 0\<close>; a magnitude that rounds to \<open>2^1024\<close> overflows.\<close>

definition to_number :: "bool \<Rightarrow> int \<Rightarrow> number" where
  "to_number negative m =
     (let v = round_double m
      in if 2 ^ 1024 \<le> v then (if negative then NegInfinity else PosInfinity)
         else Finite (if negative then - v else v))"

text \<open>An integer that a double represents exactly: rounding leaves it as it is.\<close>

definition is_double :: "int \<Rightarrow> bool" where
  "is_double n = (round_double \<bar>n\<bar> = \<bar>n\<bar> \<and> \<bar>n\<bar> < 2 ^ 1024)"

subsection \<open>parseInt\<close>

text \<open>
  \<^verbatim>\<open>parseInt(string)\<close> with no radix (ECMAScript, 19.2.5): leading white space is
  dropped, a sign is read, a \<^verbatim>\<open>0x\<close> or \<^verbatim>\<open>0X\<close> prefix selects radix 16 (else 10), the
  longest prefix of digits is the number, and no digit at all gives NaN. The result is
  the double nearest to the integer the digits denote. Of the white space characters,
  those below 256 are TAB, LF, VT, FF, CR, SP and NBSP.
\<close>

definition is_white_space :: "char \<Rightarrow> bool" where
  "is_white_space c = (of_char c \<in> {9, 10, 11, 12, 13, 32, 160 :: nat})"

definition digit_value :: "char \<Rightarrow> nat option" where
  "digit_value c =
     (let n = of_char c :: nat
      in if 48 \<le> n \<and> n \<le> 57 then Some (n - 48)
         else if 97 \<le> n \<and> n \<le> 122 then Some (n - 87)
         else if 65 \<le> n \<and> n \<le> 90 then Some (n - 55)
         else None)"

definition is_digit :: "nat \<Rightarrow> char \<Rightarrow> bool" where
  "is_digit R c = (case digit_value c of None \<Rightarrow> False | Some d \<Rightarrow> d < R)"

definition digits_value :: "nat \<Rightarrow> string \<Rightarrow> int" where
  "digits_value R Z =
     foldl (\<lambda>acc c. acc * int R + (case digit_value c of None \<Rightarrow> 0 | Some d \<Rightarrow> int d)) 0 Z"

fun strip_sign :: "string \<Rightarrow> bool \<times> string" where
  "strip_sign [] = (False, [])"
| "strip_sign (c # S) =
     (if c = CHR ''-'' then (True, S) else if c = CHR ''+'' then (False, S) else (False, c # S))"

fun strip_prefix :: "string \<Rightarrow> nat \<times> string" where
  "strip_prefix (a # b # S) =
     (if a = CHR ''0'' \<and> (b = CHR ''x'' \<or> b = CHR ''X'') then (16, S) else (10, a # b # S))"
| "strip_prefix S = (10, S)"

definition parseInt :: "string \<Rightarrow> number" where
  "parseInt inputString =
     (let (negative, S) = strip_sign (dropWhile is_white_space inputString);
          (R, S') = strip_prefix S;
          Z = takeWhile (is_digit R) S'
      in if Z = [] then NaN
         else let mathInt = digits_value R Z
              in if mathInt = 0 then (if negative then NegZero else Finite 0)
                 else to_number negative mathInt)"

subsection \<open>Decimal numerals\<close>

text \<open>
  The decimal numeral of an integer, as a template literal prints \<^verbatim>\<open>Date.now()\<close> and as
  a client writes an integer into a query string.
\<close>

definition digit_char :: "nat \<Rightarrow> char" where
  "digit_char d = char_of (48 + d)"

fun show_nat :: "nat \<Rightarrow> string" where
  "show_nat n = (if n < 10 then [digit_char n] else show_nat (n div 10) @ [digit_char (n mod 10)])"

declare show_nat.simps [simp del]

definition show_int :: "int \<Rightarrow> string" where
  "show_int i = (if i < 0 then CHR ''-'' # show_nat (nat (- i)) else show_nat (nat i))"

text \<open>A non-empty string of decimal digits.\<close>

definition decimal :: "string \<Rightarrow> bool" where
  "decimal Z = (Z \<noteq> [] \<and> (\<forall>c \<in> set Z. \<exists>d < 10. c = digit_char d))"

section \<open>Requests\<close>

subsection \<open>Query parameters\<close>

text \<open>
  \<^verbatim>\<open>req.query.expires\<close> as Express parses it: absent (\<^verbatim>\<open>undefined\<close>), a string, an array
  (the parameter repeated) or an object (bracket notation). \<^verbatim>\<open>parseInt\<close> first converts
  its argument with ToString.
\<close>

datatype query_value = QString string | QArray "query_value list" | QObject

fun join :: "string \<Rightarrow> string list \<Rightarrow> string" where
  "join sep [] = []"
| "join sep [x] = x"
| "join sep (x # y # ys) = x @ sep @ join sep (y # ys)"

fun ToString :: "query_value \<Rightarrow> string" where
  "ToString (QString s) = s"
| "ToString (QArray xs) = join '','' (map ToString xs)"
| "ToString QObject = ''[object Object]''"

definition ToString_query :: "query_value option \<Rightarrow> string" where
  "ToString_query q = (case q of None \<Rightarrow> ''undefined'' | Some v \<Rightarrow> ToString v)"

subsection \<open>The upload middleware\<close>

text \<open>
  \<^verbatim>\<open>upload.single('file')\<close>: the multipart middleware configured at lines 26-36. It
  works in two steps. The first looks at the file part of the body, \<open>expected_file\<close>
  below. The second, \<open>upload_single\<close>, takes the file the first step found for the field
  \<^verbatim>\<open>file\<close>, if any: its file name, its declared content type and its bytes. The
  middleware keeps the file in memory and hands it to the route as \<^verbatim>\<open>req.file\<close>;
  \<^verbatim>\<open>fileFilter\<close> accepts every file, and a file that hits \<^verbatim>\<open>limits.fileSize\<close> makes the
  middleware pass an error on, so the route handler is not called.

  The size test belongs to the multipart parser, which is not part of the repository,
  and its releases differ at the boundary: one reports the limit when the file is longer
  than \<^verbatim>\<open>fileSize\<close>, the other as soon as the file reaches \<^verbatim>\<open>fileSize\<close> bytes. The test
  in force is a parameter of the application.
\<close>

record req_file =
  originalname :: string
  mimetype :: string
  buffer :: bytes

datatype size_test = Exceeds | Reaches

datatype multer_error = LIMIT_FILE_SIZE | LIMIT_UNEXPECTED_FILE

definition fileSize :: nat where
  "fileSize = 10 * 1024 * 1024"

definition fileFilter :: "req_file \<Rightarrow> bool" where
  "fileFilter f = True"

definition limit_hit :: "size_test \<Rightarrow> nat \<Rightarrow> nat \<Rightarrow> bool" where
  "limit_hit t limit n = (case t of Exceeds \<Rightarrow> limit < n | Reaches \<Rightarrow> limit \<le> n)"

definition upload_single :: "size_test \<Rightarrow> req_file option \<Rightarrow> multer_error + req_file option" where
  "upload_single t body =
     (case body of
        None \<Rightarrow> Inr None
      | Some f \<Rightarrow>
          if \<not> fileFilter f then Inr None
          else if limit_hit t fileSize (length (buffer f)) then Inl LIMIT_FILE_SIZE
          else Inr (Some f))"

text \<open>
  The first step. A multipart body carries no file part, or a file part in some field
  (bodies with several file parts are not modelled). The middleware drops a part whose
  file name is empty, as if the body had no file part, and it refuses a file in any field
  other than the one \<^verbatim>\<open>upload.single\<close> names: it passes the error
  \<^verbatim>\<open>LIMIT_UNEXPECTED_FILE\<close> on and the route handler is not called.
\<close>

datatype multipart = NoFilePart | FilePart string req_file

definition expected_file :: "string \<Rightarrow> multipart \<Rightarrow> multer_error + req_file option" where
  "expected_file name body =
     (case body of
        NoFilePart \<Rightarrow> Inr None
      | FilePart field f \<Rightarrow>
          if originalname f = [] then Inr None
          else if field \<noteq> name then Inl LIMIT_UNEXPECTED_FILE
          else Inr (Some f))"

section \<open>The object storage client\<close>

text \<open>
  The parameter objects the handlers build, with the property names of the source.
\<close>

record bucket_params =
  Bucket :: string

record object_params = bucket_params +
  Key :: string

record upload_params = object_params +
  Body :: bytes
  ContentType :: string
  ACL :: string

record url_params = object_params +
  Expires :: number

record list_params = bucket_params +
  MaxKeys :: nat

text \<open>
  What the service returns: the data of a finished upload (\<^verbatim>\<open>result.Location\<close>,
  \<^verbatim>\<open>result.Bucket\<close>, \<^verbatim>\<open>result.ETag\<close>), the entries of a listing (\<^verbatim>\<open>file.Key\<close>,
  \<^verbatim>\<open>file.LastModified\<close>, \<^verbatim>\<open>file.Size\<close>, \<^verbatim>\<open>file.ETag\<close>, and the storage class the
  gateway does not pass on), and errors with their \<^verbatim>\<open>code\<close> and \<^verbatim>\<open>message\<close>.
\<close>

record upload_data =
  Location :: string
  upload_Bucket :: string
  upload_ETag :: string

record s3_object =
  object_Key :: string
  LastModified :: int
  Size :: nat
  object_ETag :: string
  StorageClass :: string

record s3_error =
  code :: string
  message :: string

text \<open>
  The client \<^verbatim>\<open>s3\<close>. The service is external, so each operation is a parameter: from the
  parameters and the state of the service to a reply (an error or a result) and the
  state afterwards. \<open>getObject\<close> stands for \<^verbatim>\<open>getObject(params).createReadStream()\<close> read
  to its end: the bytes, or the error the stream emits.
\<close>

record 's S3 =
  upload :: "upload_params \<Rightarrow> 's \<Rightarrow> (s3_error + upload_data) \<times> 's"
  listObjectsV2 :: "list_params \<Rightarrow> 's \<Rightarrow> (s3_error + s3_object list) \<times> 's"
  headObject :: "object_params \<Rightarrow> 's \<Rightarrow> (s3_error + unit) \<times> 's"
  getObject :: "object_params \<Rightarrow> 's \<Rightarrow> (s3_error + bytes) \<times> 's"
  getSignedUrlPromise :: "url_params \<Rightarrow> 's \<Rightarrow> (s3_error + string) \<times> 's"
  deleteObject :: "object_params \<Rightarrow> 's \<Rightarrow> (s3_error + unit) \<times> 's"

text \<open>The storage calls a handler issues, in order.\<close>

datatype s3_call =
    Upload upload_params
  | ListObjectsV2 list_params
  | HeadObject object_params
  | GetObject object_params
  | GetSignedUrl url_params
  | DeleteObject object_params

record 's app =
  BUCKET_NAME :: string
  s3 :: "'s S3"
  parser :: size_test

section \<open>Responses\<close>

text \<open>
  The body of a JSON response, as \<^verbatim>\<open>res.json\<close> writes it and the client reads it. A
  \<^verbatim>\<open>Date\<close> is written as the ISO string of its time value and is kept here as that time
  value. A number is written as a JSON number when it is finite; \<^verbatim>\<open>JSON.stringify\<close>
  writes \<^verbatim>\<open>-0\<close> as \<^verbatim>\<open>0\<close>, and NaN and the infinities as \<^verbatim>\<open>null\<close>.
\<close>

datatype json =
    JNull
  | JBool bool
  | JNumber number
  | JString string
  | JDate int
  | JArray "json list"
  | JObject "(string \<times> json) list"

fun json_number :: "number \<Rightarrow> json" where
  "json_number (Finite n) = JNumber (Finite n)"
| "json_number NegZero = JNumber (Finite 0)"
| "json_number NaN = JNull"
| "json_number PosInfinity = JNull"
| "json_number NegInfinity = JNull"

text \<open>
  How a request ends:
  \<^item> \<open>Json status body\<close>: \<^verbatim>\<open>res.status(status).json(body)\<close> (\<^verbatim>\<open>res.json\<close> alone is status 200);
  \<^item> \<open>Stream headers data\<close>: the headers were set and the object's stream was piped into
    the response to its end;
  \<^item> \<open>StreamError headers error\<close>: the headers were set and the pipe started, then the
    stream emitted \<^verbatim>\<open>error\<close>. The handler has returned by then and attached no listener,
    so its \<^verbatim>\<open>catch\<close> block does not run and no error response is written;
  \<^item> \<open>NextError error\<close>: the middleware passed an error on; the route handler is not
    called and, with no error handler installed, Express answers with status 500.
\<close>

datatype response =
    Json nat json
  | Stream "(string \<times> string) list" bytes
  | StreamError "(string \<times> string) list" s3_error
  | NextError multer_error

fun status :: "response \<Rightarrow> nat option" where
  "status (Json n body) = Some n"
| "status (Stream headers data) = Some 200"
| "status (StreamError headers error) = None"
| "status (NextError error) = Some 500"

text \<open>The properties of a JSON object response, and whether a string is the value of one.\<close>

fun properties :: "response \<Rightarrow> (string \<times> json) list" where
  "properties (Json n (JObject kvs)) = kvs"
| "properties r = []"

definition carries :: "response \<Rightarrow> string \<Rightarrow> bool" where
  "carries r s = (JString s \<in> snd ` set (properties r))"

text \<open>What a handler did: its response, its storage calls and the state of the service.\<close>

record 's outcome =
  response :: response
  calls :: "s3_call list"
  store :: 's

section \<open>The route handlers\<close>

subsection \<open>POST /api/upload\<close>

text \<open>
  Lines 39-74, on the file the request carries in the field \<^verbatim>\<open>file\<close>, if any. \<open>now\<close> is
  the value of \<^verbatim>\<open>Date.now()\<close>; the template literal prints it as a decimal numeral.
\<close>

definition post_api_upload :: "'s app \<Rightarrow> int \<Rightarrow> req_file option \<Rightarrow> 's \<Rightarrow> 's outcome" where
  "post_api_upload app now body st =
     (case upload_single (parser app) body of
        Inl err \<Rightarrow> \<lparr>response = NextError err, calls = [], store = st\<rparr>
      | Inr None \<Rightarrow>
          \<lparr>response = Json 400 (JObject [(''error'', JString ''No file provided'')]),
           calls = [], store = st\<rparr>
      | Inr (Some f) \<Rightarrow>
          let fileKey = show_int now @ ''-'' @ originalname f;
              uploadParams = \<lparr>Bucket = BUCKET_NAME app, Key = fileKey, Body = buffer f,
                              ContentType = mimetype f, ACL = ''private''\<rparr>;
              (r, st') = upload (s3 app) uploadParams st
          in case r of
               Inl error \<Rightarrow>
                 \<lparr>response = Json 500 (JObject [(''error'', JString ''Failed to upload file''),
                                                 (''details'', JString (message error))]),
                  calls = [Upload uploadParams], store = st'\<rparr>
             | Inr result \<Rightarrow>
                 \<lparr>response = Json 200 (JObject [(''success'', JBool True),
                     (''message'', JString ''File uploaded successfully''),
                     (''data'', JObject [(''key'', JString fileKey),
                                         (''location'', JString (Location result)),
                                         (''bucket'', JString (upload_Bucket result)),
                                         (''etag'', JString (upload_ETag result))])]),
                  calls = [Upload uploadParams], store = st'\<rparr>)"

text \<open>
  The route on a whole multipart body: \<open>post_api_upload\<close> is reached with the file that
  the first step of the middleware found for the field \<^verbatim>\<open>file\<close>.
\<close>

definition post_api_upload_multipart :: "'s app \<Rightarrow> int \<Rightarrow> multipart \<Rightarrow> 's \<Rightarrow> 's outcome" where
  "post_api_upload_multipart app now body st =
     (case expected_file ''file'' body of
        Inl err \<Rightarrow> \<lparr>response = NextError err, calls = [], store = st\<rparr>
      | Inr found \<Rightarrow> post_api_upload app now found st)"

subsection \<open>GET /api/files\<close>

text \<open>Lines 77-105.\<close>

definition file_entry :: "s3_object \<Rightarrow> json" where
  "file_entry file =
     JObject [(''key'', JString (object_Key file)),
              (''lastModified'', JDate (LastModified file)),
              (''size'', json_number (Finite (int (Size file)))),
              (''etag'', JString (object_ETag file))]"

definition get_api_files :: "'s app \<Rightarrow> 's \<Rightarrow> 's outcome" where
  "get_api_files app st =
     (let params = \<lparr>Bucket = BUCKET_NAME app, MaxKeys = 1000\<rparr>;
          (r, st') = listObjectsV2 (s3 app) params st
      in case r of
           Inl error \<Rightarrow>
             \<lparr>response = Json 500 (JObject [(''error'', JString ''Failed to retrieve files''),
                                             (''details'', JString (message error))]),
              calls = [ListObjectsV2 params], store = st'\<rparr>
         | Inr Contents \<Rightarrow>
             let files = map file_entry Contents
             in \<lparr>response = Json 200 (JObject [(''success'', JBool True),
                                                (''files'', JArray files),
                                                (''count'', json_number (Finite (int (length files))))]),
                 calls = [ListObjectsV2 params], store = st'\<rparr>)"

subsection \<open>GET /api/download/:key\<close>

text \<open>
  Lines 108-142. \<^verbatim>\<open>res.setHeader\<close> throws when the value holds a character other than
  TAB, \<open>0x20\<close> to \<open>0x7e\<close> and \<open>0x80\<close> to \<open>0xff\<close>; the throw is inside the handler's
  \<^verbatim>\<open>try\<close>. By then \<^verbatim>\<open>createReadStream\<close> has scheduled the request for the object.
\<close>

definition header_char :: "char \<Rightarrow> bool" where
  "header_char c = (let n = of_char c :: nat in n = 9 \<or> (32 \<le> n \<and> n \<le> 126) \<or> 128 \<le> n)"

definition valid_header_value :: "string \<Rightarrow> bool" where
  "valid_header_value v = list_all header_char v"

definition ERR_INVALID_CHAR :: "string \<Rightarrow> string" where
  "ERR_INVALID_CHAR name = ''Invalid character in header content ['' @ [CHR 0x22] @ name @ [CHR 0x22] @ '']''"

definition content_disposition :: "string \<Rightarrow> string" where
  "content_disposition fileKey = ''attachment; filename='' @ [CHR 0x22] @ fileKey @ [CHR 0x22]"

definition get_api_download :: "'s app \<Rightarrow> string \<Rightarrow> 's \<Rightarrow> 's outcome" where
  "get_api_download app fileKey st =
     (let params = \<lparr>Bucket = BUCKET_NAME app, Key = fileKey\<rparr>;
          (h, st') = headObject (s3 app) params st
      in case h of
           Inl headError \<Rightarrow>
             if code headError = ''NotFound''
             then \<lparr>response = Json 404 (JObject [(''error'', JString ''File not found'')]),
                   calls = [HeadObject params], store = st'\<rparr>
             else \<lparr>response = Json 500 (JObject [(''error'', JString ''Failed to download file''),
                                                  (''details'', JString (message headError))]),
                   calls = [HeadObject params], store = st'\<rparr>
         | Inr _ \<Rightarrow>
             let (fileStream, st'') = getObject (s3 app) params st';
                 headers = [(''Content-Disposition'', content_disposition fileKey),
                            (''Content-Type'', ''application/octet-stream'')]
             in if \<not> valid_header_value (content_disposition fileKey)
                then \<lparr>response = Json 500 (JObject [(''error'', JString ''Failed to download file''),
                          (''details'', JString (ERR_INVALID_CHAR ''Content-Disposition''))]),
                      calls = [HeadObject params, GetObject params], store = st''\<rparr>
                else case fileStream of
                       Inl error \<Rightarrow>
                         \<lparr>response = StreamError headers error,
                          calls = [HeadObject params, GetObject params], store = st''\<rparr>
                     | Inr data \<Rightarrow>
                         \<lparr>response = Stream headers data,
                          calls = [HeadObject params, GetObject params], store = st''\<rparr>)"

subsection \<open>GET /api/file-url/:key\<close>

text \<open>Lines 145-170.\<close>

definition expiration :: "query_value option \<Rightarrow> number" where
  "expiration expires = or_else (parseInt (ToString_query expires)) (Finite 3600)"

definition get_api_file_url :: "'s app \<Rightarrow> string \<Rightarrow> query_value option \<Rightarrow> 's \<Rightarrow> 's outcome" where
  "get_api_file_url app fileKey expires st =
     (let params = \<lparr>Bucket = BUCKET_NAME app, Key = fileKey, Expires = expiration expires\<rparr>;
          (r, st') = getSignedUrlPromise (s3 app) params st
      in case r of
           Inl error \<Rightarrow>
             \<lparr>response = Json 500 (JObject [(''error'', JString ''Failed to generate file URL''),
                                             (''details'', JString (message error))]),
              calls = [GetSignedUrl params], store = st'\<rparr>
         | Inr url \<Rightarrow>
             \<lparr>response = Json 200 (JObject [(''success'', JBool True),
                                             (''url'', JString url),
                                             (''expires'', json_number (expiration expires))]),
              calls = [GetSignedUrl params], store = st'\<rparr>)"

subsection \<open>DELETE /api/delete/:key\<close>

text \<open>Lines 173-196.\<close>

definition delete_api_delete :: "'s app \<Rightarrow> string \<Rightarrow> 's \<Rightarrow> 's outcome" where
  "delete_api_delete app fileKey st =
     (let params = \<lparr>Bucket = BUCKET_NAME app, Key = fileKey\<rparr>;
          (r, st') = deleteObject (s3 app) params st
      in case r of
           Inl error \<Rightarrow>
             \<lparr>response = Json 500 (JObject [(''error'', JString ''Failed to delete file''),
                                             (''details'', JString (message error))]),
              calls = [DeleteObject params], store = st'\<rparr>
         | Inr _ \<Rightarrow>
             \<lparr>response = Json 200 (JObject [(''success'', JBool True),
                                             (''message'', JString ''File deleted successfully''),
                                             (''key'', JString fileKey)]),
              calls = [DeleteObject params], store = st'\<rparr>)"

subsection \<open>GET /api/health\<close>

text \<open>Lines 199-201; the time stamp is kept as the time value of the date.\<close>

definition get_api_health :: "int \<Rightarrow> 's \<Rightarrow> 's outcome" where
  "get_api_health now st =
     \<lparr>response = Json 200 (JObject [(''status'', JString ''OK''), (''timestamp'', JDate now)]),
      calls = [], store = st\<rparr>"

section \<open>Stand-ins for the storage service\<close>

text \<open>
  Two services to run the handlers on. \<open>bucket_s3\<close> keeps the stored objects in a list of
  keys and contents and follows the contract the gateway relies on: an upload replaces
  the object under its key, the probe of a key that is not stored fails with code
  \<^verbatim>\<open>NotFound\<close>, and a delete is acknowledged whether or not the key is stored.
  \<open>failing_s3 e\<close> answers every call with the error \<open>e\<close>.
\<close>

type_synonym bucket = "(string \<times> bytes) list"

definition remove_key :: "string \<Rightarrow> bucket \<Rightarrow> bucket" where
  "remove_key k st = filter (\<lambda>kv. fst kv \<noteq> k) st"

definition bucket_s3 :: "bucket S3" where
  "bucket_s3 =
     \<lparr>upload = (\<lambda>p st.
        (Inr \<lparr>Location = ''https://s3.amazonaws.com/'' @ Bucket p @ ''/'' @ Key p,
              upload_Bucket = Bucket p, upload_ETag = ''etag''\<rparr>,
         (Key p, Body p) # remove_key (Key p) st)),
      listObjectsV2 = (\<lambda>p st.
        (Inr (map (\<lambda>kv. \<lparr>object_Key = fst kv, LastModified = 0, Size = length (snd kv),
                           object_ETag = ''etag'', StorageClass = ''STANDARD''\<rparr>)
                  (take (MaxKeys p) st)), st)),
      headObject = (\<lambda>p st.
        (case map_of st (Key p) of
           None \<Rightarrow> Inl \<lparr>code = ''NotFound'', message = ''Not Found''\<rparr>
         | Some data \<Rightarrow> Inr (), st)),
      getObject = (\<lambda>p st.
        (case map_of st (Key p) of
           None \<Rightarrow> Inl \<lparr>code = ''NoSuchKey'', message = ''The specified key does not exist.''\<rparr>
         | Some data \<Rightarrow> Inr data, st)),
      getSignedUrlPromise = (\<lambda>p st.
        (Inr (''https://s3.amazonaws.com/'' @ Bucket p @ ''/'' @ Key p), st)),
      deleteObject = (\<lambda>p st. (Inr (), remove_key (Key p) st))\<rparr>"

definition failing_s3 :: "s3_error \<Rightarrow> 's S3" where
  "failing_s3 e =
     \<lparr>upload = (\<lambda>p st. (Inl e, st)),
      listObjectsV2 = (\<lambda>p st. (Inl e, st)),
      headObject = (\<lambda>p st. (Inl e, st)),
      getObject = (\<lambda>p st. (Inl e, st)),
      getSignedUrlPromise = (\<lambda>p st. (Inl e, st)),
      deleteObject = (\<lambda>p st. (Inl e, st))\<rparr>"

text \<open>Two applications: one on the bucket stand-in, one whose storage always fails.\<close>

definition bucket_app :: "size_test \<Rightarrow> bucket app" where
  "bucket_app t = \<lparr>BUCKET_NAME = ''uploads'', s3 = bucket_s3, parser = t\<rparr>"

definition failing_app :: "s3_error \<Rightarrow> bucket app" where
  "failing_app e = \<lparr>BUCKET_NAME = ''uploads'', s3 = failing_s3 e, parser = Exceeds\<rparr>"

section \<open>Decimal numerals are read back\<close>

lemma digit_value_digit_char: "d < 10 \<Longrightarrow> digit_value (digit_char d) = Some d"
  by (simp add: digit_value_def digit_char_def Let_def)

lemma is_digit_digit_char: "d < 10 \<Longrightarrow> is_digit 10 (digit_char d)"
  by (simp add: is_digit_def digit_value_digit_char)

lemma digit_char_plain:
  assumes "d < 10"
  shows "\<not> is_white_space (digit_char d)" "digit_char d \<noteq> CHR ''-''" "digit_char d \<noteq> CHR ''+''"
    "digit_char d \<noteq> CHR ''x''" "digit_char d \<noteq> CHR ''X''"
proof -
  have v: "of_char (digit_char d) = 48 + d"
    using assms by (simp add: digit_char_def)
  show "\<not> is_white_space (digit_char d)"
    using assms by (simp add: is_white_space_def v)
  have "of_char (digit_char d) \<noteq> (of_char (CHR ''-'') :: nat)" using assms v by simp
  then show "digit_char d \<noteq> CHR ''-''" by metis
  have "of_char (digit_char d) \<noteq> (of_char (CHR ''+'') :: nat)" using assms v by simp
  then show "digit_char d \<noteq> CHR ''+''" by metis
  have "of_char (digit_char d) \<noteq> (of_char (CHR ''x'') :: nat)" using assms v by simp
  then show "digit_char d \<noteq> CHR ''x''" by metis
  have "of_char (digit_char d) \<noteq> (of_char (CHR ''X'') :: nat)" using assms v by simp
  then show "digit_char d \<noteq> CHR ''X''" by metis
qed

lemma decimal_show_nat: "decimal (show_nat n)"
proof (induction n rule: show_nat.induct)
  case (1 n)
  show ?case
  proof (cases "n < 10")
    case True
    then show ?thesis by (subst show_nat.simps) (auto simp: decimal_def)
  next
    case False
    have "\<exists>d<10. digit_char (n mod 10) = digit_char d"
      by (rule exI [of _ "n mod 10"]) simp
    with False 1 show ?thesis
      by (subst show_nat.simps) (auto simp: decimal_def)
  qed
qed

lemma digits_value_snoc:
  "digits_value R (Z @ [c]) =
     digits_value R Z * int R + (case digit_value c of None \<Rightarrow> 0 | Some d \<Rightarrow> int d)"
  by (simp add: digits_value_def)

lemma digits_value_show_nat: "digits_value 10 (show_nat n) = int n"
proof (induction n rule: show_nat.induct)
  case (1 n)
  show ?case
  proof (cases "n < 10")
    case True
    then show ?thesis
      by (subst show_nat.simps) (simp add: digits_value_def digit_value_digit_char)
  next
    case False
    have "digits_value 10 (show_nat n) = digits_value 10 (show_nat (n div 10)) * 10 + int (n mod 10)"
      using False by (subst show_nat.simps) (simp add: digits_value_snoc digit_value_digit_char)
    also have "\<dots> = int (n div 10) * 10 + int (n mod 10)"
      using False 1 by simp
    also have "\<dots> = int n" by presburger
    finally show ?thesis .
  qed
qed

lemma decimal_scan:
  assumes "decimal Z"
  shows "dropWhile is_white_space Z = Z" "strip_sign Z = (False, Z)" "strip_prefix Z = (10, Z)"
    "takeWhile (is_digit 10) Z = Z"
proof -
  from assms obtain c S where Z: "Z = c # S" by (cases Z) (auto simp: decimal_def)
  from assms Z obtain d where d: "d < 10" "c = digit_char d" by (auto simp: decimal_def)
  show "dropWhile is_white_space Z = Z" using Z d digit_char_plain(1) by simp
  show "strip_sign Z = (False, Z)" using Z d digit_char_plain(2,3) by simp
  show "takeWhile (is_digit 10) Z = Z"
    using assms by (auto simp: decimal_def is_digit_digit_char)
  show "strip_prefix Z = (10, Z)"
  proof (cases S)
    case Nil
    with Z show ?thesis by simp
  next
    case (Cons b S')
    with assms Z obtain d' where "d' < 10" "b = digit_char d'" by (auto simp: decimal_def)
    with Z Cons show ?thesis using digit_char_plain(4,5) by simp
  qed
qed

lemma parseInt_show_nat:
  assumes "0 < n"
  shows "parseInt (show_nat n) = to_number False (int n)"
  using assms decimal_show_nat [of n]
  by (simp add: parseInt_def decimal_scan digits_value_show_nat decimal_def)

lemma parseInt_show_int:
  assumes "i \<noteq> 0"
  shows "parseInt (show_int i) = to_number (i < 0) \<bar>i\<bar>"
proof (cases "i < 0")
  case False
  with assms parseInt_show_nat [of "nat i"] show ?thesis by (simp add: show_int_def)
next
  case True
  let ?Z = "show_nat (nat (- i))"
  have dec: "decimal ?Z" by (rule decimal_show_nat)
  have "\<not> is_white_space (CHR ''-'')" by (simp add: is_white_space_def)
  then have "strip_sign (dropWhile is_white_space (CHR ''-'' # ?Z)) = (True, ?Z)" by simp
  with True assms dec show ?thesis
    by (simp add: show_int_def parseInt_def decimal_scan digits_value_show_nat decimal_def)
qed

lemma to_number_is_double:
  assumes "is_double n"
  shows "to_number (n < 0) \<bar>n\<bar> = Finite n"
  using assms by (auto simp: is_double_def to_number_def Let_def)

lemma is_double_small:
  assumes "\<bar>n\<bar> \<le> 2 ^ 53"
  shows "is_double n"
proof (cases "\<bar>n\<bar> < 2 ^ 53")
  case True
  then have "round_double \<bar>n\<bar> = \<bar>n\<bar>" by (simp add: round_double_def)
  moreover from True have "\<bar>n\<bar> < 2 ^ 1024" by simp
  ultimately show ?thesis by (simp add: is_double_def)
next
  case False
  with assms have eq: "\<bar>n\<bar> = 9007199254740992" by simp
  have "round_double 9007199254740992 = 9007199254740992"
    by (simp add: round_double_def bitlen.simps Let_def)
  with eq show ?thesis by (simp add: is_double_def)
qed

lemma show_nat_digit: "n < 10 \<Longrightarrow> show_nat n = [digit_char n]"
  by (subst show_nat.simps) simp

lemma show_nat_more: "10 \<le> n \<Longrightarrow> show_nat n = show_nat (n div 10) @ [digit_char (n mod 10)]"
  by (subst show_nat.simps) simp

section \<open>Signed URLs: the expiry\<close>

text \<open>Evaluation of numerals and of \<open>parseInt\<close> on given strings.\<close>

lemmas show_eval = show_int_def show_nat_digit show_nat_more digit_char_def char_of_def bit_iff_odd
lemmas parse_eval = parseInt_def is_white_space_def is_digit_def digit_value_def digits_value_def
  to_number_def round_double_def

lemma expiration_show_int:
  assumes "n \<noteq> 0" "is_double n"
  shows "expiration (Some (QString (show_int n))) = Finite n"
  using assms
  by (simp add: expiration_def ToString_query_def parseInt_show_int to_number_is_double or_else_def)

lemma expiration_omitted: "expiration None = Finite 3600"
  by (simp add: expiration_def ToString_query_def or_else_def parse_eval)


lemma bitlen_power: "bitlen (2 ^ k) = Suc k"
proof (induction k)
  case 0
  show ?case by (simp add: bitlen.simps)
next
  case (Suc k)
  have "bitlen (2 ^ Suc k) = Suc (bitlen (2 ^ Suc k div 2))"
    by (subst bitlen.simps) simp
  with Suc show ?case by simp
qed

lemma round_double_power: "round_double (2 ^ 1024) = 2 ^ 1024"
proof -
  have e: "bitlen (2 ^ 1024) - 53 = 972"
    by (simp only: bitlen_power)
  have q: "(2::int) ^ 1024 div 2 ^ 972 = 2 ^ 52" and r: "(2::int) ^ 1024 mod 2 ^ 972 = 0"
    by simp_all
  have "\<not> (2::int) ^ 1024 < 2 ^ 53" by simp
  then have "round_double (2 ^ 1024) = 2 ^ 52 * 2 ^ 972"
    unfolding round_double_def Let_def e q r by simp
  then show ?thesis by simp
qed

lemma to_number_overflow: "to_number False (2 ^ 1024) = PosInfinity"
  by (simp only: to_number_def Let_def round_double_power) simp

lemma expiration_overflow: "expiration (Some (QString (show_int (2 ^ 1024)))) = PosInfinity"
proof -
  have "(2::int) ^ 1024 \<noteq> 0" by simp
  then have "parseInt (show_int (2 ^ 1024)) = to_number ((2::int) ^ 1024 < 0) \<bar>2 ^ 1024\<bar>"
    by (rule parseInt_show_int)
  also have "\<dots> = PosInfinity"
    using to_number_overflow by simp
  finally show ?thesis
    by (simp add: expiration_def ToString_query_def or_else_def)
qed


lemma expiration_falsy:
  assumes "parseInt (ToString v) \<in> {NaN, Finite 0, NegZero}"
  shows "expiration (Some v) = Finite 3600"
  using assms by (auto simp: expiration_def ToString_query_def or_else_def)

lemma file_url_call:
  "calls (get_api_file_url app k q st) =
     [GetSignedUrl \<lparr>Bucket = BUCKET_NAME app, Key = k, Expires = expiration q\<rparr>]"
  by (simp add: get_api_file_url_def Let_def split: prod.split sum.split)

lemma file_url_success:
  assumes "getSignedUrlPromise (s3 app)
      \<lparr>Bucket = BUCKET_NAME app, Key = k, Expires = expiration q\<rparr> st = (Inr url, st')"
  shows "response (get_api_file_url app k q st) =
     Json 200 (JObject [(''success'', JBool True), (''url'', JString url),
                        (''expires'', json_number (expiration q))])"
  using assms by (simp add: get_api_file_url_def Let_def)

text \<open>
  C1, as amended. When \<^verbatim>\<open>expires\<close> is omitted, the expiry in the storage call and the
  expiry echoed in the response are 3600. When the decimal numeral of an integer other
  than 0 that a double represents exactly is supplied, both are that integer; every
  integer of magnitude up to \<open>2^53\<close> is such an integer.
\<close>

theorem file_url_expires:
  "calls (get_api_file_url app k None st) =
     [GetSignedUrl \<lparr>Bucket = BUCKET_NAME app, Key = k, Expires = Finite 3600\<rparr>]
   \<and> (getSignedUrlPromise (s3 app)
         \<lparr>Bucket = BUCKET_NAME app, Key = k, Expires = Finite 3600\<rparr> st = (Inr url, st')
       \<longrightarrow> response (get_api_file_url app k None st) =
            Json 200 (JObject [(''success'', JBool True), (''url'', JString url),
                               (''expires'', JNumber (Finite 3600))]))
   \<and> (n \<noteq> 0 \<and> is_double n \<longrightarrow>
        calls (get_api_file_url app k (Some (QString (show_int n))) st) =
          [GetSignedUrl \<lparr>Bucket = BUCKET_NAME app, Key = k, Expires = Finite n\<rparr>]
        \<and> (getSignedUrlPromise (s3 app)
              \<lparr>Bucket = BUCKET_NAME app, Key = k, Expires = Finite n\<rparr> st = (Inr url, st')
            \<longrightarrow> response (get_api_file_url app k (Some (QString (show_int n))) st) =
                 Json 200 (JObject [(''success'', JBool True), (''url'', JString url),
                                    (''expires'', JNumber (Finite n))])))
   \<and> (\<bar>n\<bar> \<le> 2 ^ 53 \<longrightarrow> is_double n)"
proof (intro conjI impI)
  show "calls (get_api_file_url app k None st) =
     [GetSignedUrl \<lparr>Bucket = BUCKET_NAME app, Key = k, Expires = Finite 3600\<rparr>]"
    by (simp add: file_url_call expiration_omitted)
next
  assume "getSignedUrlPromise (s3 app)
         \<lparr>Bucket = BUCKET_NAME app, Key = k, Expires = Finite 3600\<rparr> st = (Inr url, st')"
  then show "response (get_api_file_url app k None st) =
            Json 200 (JObject [(''success'', JBool True), (''url'', JString url),
                               (''expires'', JNumber (Finite 3600))])"
    using file_url_success [of app k None st url st'] by (simp add: expiration_omitted)
next
  assume "n \<noteq> 0 \<and> is_double n"
  then show "calls (get_api_file_url app k (Some (QString (show_int n))) st) =
          [GetSignedUrl \<lparr>Bucket = BUCKET_NAME app, Key = k, Expires = Finite n\<rparr>]"
    by (simp add: file_url_call expiration_show_int)
next
  assume "n \<noteq> 0 \<and> is_double n"
  then have e: "expiration (Some (QString (show_int n))) = Finite n"
    by (simp add: expiration_show_int)
  assume "getSignedUrlPromise (s3 app)
              \<lparr>Bucket = BUCKET_NAME app, Key = k, Expires = Finite n\<rparr> st = (Inr url, st')"
  then show "response (get_api_file_url app k (Some (QString (show_int n))) st) =
                 Json 200 (JObject [(''success'', JBool True), (''url'', JString url),
                                    (''expires'', JNumber (Finite n))])"
    using file_url_success [of app k "Some (QString (show_int n))" st url st'] by (simp add: e)
next
  assume "\<bar>n\<bar> \<le> 2 ^ 53"
  then show "is_double n" by (rule is_double_small)
qed

theorem file_url_expires_witness:
  "calls (get_api_file_url (bucket_app Exceeds) ''a.txt'' None []) =
     [GetSignedUrl \<lparr>Bucket = ''uploads'', Key = ''a.txt'', Expires = Finite 3600\<rparr>]
   \<and> response (get_api_file_url (bucket_app Exceeds) ''a.txt'' None []) =
       Json 200 (JObject [(''success'', JBool True),
                          (''url'', JString ''https://s3.amazonaws.com/uploads/a.txt''),
                          (''expires'', JNumber (Finite 3600))])
   \<and> calls (get_api_file_url (bucket_app Exceeds) ''a.txt''
        (Some (QString ''9007199254740992'')) []) =
     [GetSignedUrl \<lparr>Bucket = ''uploads'', Key = ''a.txt'', Expires = Finite 9007199254740992\<rparr>]
   \<and> response (get_api_file_url (bucket_app Exceeds) ''a.txt''
        (Some (QString ''9007199254740992'')) []) =
       Json 200 (JObject [(''success'', JBool True),
                          (''url'', JString ''https://s3.amazonaws.com/uploads/a.txt''),
                          (''expires'', JNumber (Finite 9007199254740992))])"
proof -
  let ?n = "9007199254740992 :: int"
  let ?url = "''https://s3.amazonaws.com/uploads/a.txt''"
  note t = file_url_expires [of "bucket_app Exceeds" "''a.txt''" "[]" ?url "[]" ?n]
  have numeral: "show_int ?n = ''9007199254740992''"
    by (simp add: show_eval)
  have "\<bar>?n\<bar> \<le> 2 ^ 53" by simp
  with t have double: "?n \<noteq> 0 \<and> is_double ?n" by simp
  have omitted: "getSignedUrlPromise (s3 (bucket_app Exceeds))
      \<lparr>Bucket = BUCKET_NAME (bucket_app Exceeds), Key = ''a.txt'', Expires = Finite 3600\<rparr> [] =
      (Inr ?url, [])"
    by (simp add: bucket_app_def bucket_s3_def)
  have supplied: "getSignedUrlPromise (s3 (bucket_app Exceeds))
      \<lparr>Bucket = BUCKET_NAME (bucket_app Exceeds), Key = ''a.txt'', Expires = Finite ?n\<rparr> [] =
      (Inr ?url, [])"
    by (simp add: bucket_app_def bucket_s3_def)
  from t omitted have 1: "calls (get_api_file_url (bucket_app Exceeds) ''a.txt'' None []) =
     [GetSignedUrl \<lparr>Bucket = BUCKET_NAME (bucket_app Exceeds), Key = ''a.txt'', Expires = Finite 3600\<rparr>]"
    and 2: "response (get_api_file_url (bucket_app Exceeds) ''a.txt'' None []) =
       Json 200 (JObject [(''success'', JBool True), (''url'', JString ?url),
                          (''expires'', JNumber (Finite 3600))])"
    by blast+
  from t double supplied have 3: "calls (get_api_file_url (bucket_app Exceeds) ''a.txt''
        (Some (QString (show_int ?n))) []) =
     [GetSignedUrl \<lparr>Bucket = BUCKET_NAME (bucket_app Exceeds), Key = ''a.txt'', Expires = Finite ?n\<rparr>]"
    and 4: "response (get_api_file_url (bucket_app Exceeds) ''a.txt''
        (Some (QString (show_int ?n))) []) =
       Json 200 (JObject [(''success'', JBool True), (''url'', JString ?url),
                          (''expires'', JNumber (Finite ?n))])"
    by blast+
  from 1 2 3 4 show ?thesis
    by (simp add: numeral bucket_app_def)
qed

text \<open>
  C1 as stated fails for the integer 0, which is falsy and so replaced by 3600, and for
  integers that no double represents: 9007199254740993 is rounded to 9007199254740992,
  and for \<open>2^1024\<close> the storage call gets an infinite expiry, echoed as \<^verbatim>\<open>null\<close>.
\<close>

theorem file_url_expires_counterexample:
  "calls (get_api_file_url (bucket_app Exceeds) ''a.txt'' (Some (QString ''0'')) []) =
     [GetSignedUrl \<lparr>Bucket = ''uploads'', Key = ''a.txt'', Expires = Finite 3600\<rparr>]
   \<and> response (get_api_file_url (bucket_app Exceeds) ''a.txt'' (Some (QString ''0'')) []) =
       Json 200 (JObject [(''success'', JBool True),
                          (''url'', JString ''https://s3.amazonaws.com/uploads/a.txt''),
                          (''expires'', JNumber (Finite 3600))])
   \<and> show_int 0 = ''0''
   \<and> calls (get_api_file_url (bucket_app Exceeds) ''a.txt''
        (Some (QString ''9007199254740993'')) []) =
     [GetSignedUrl \<lparr>Bucket = ''uploads'', Key = ''a.txt'', Expires = Finite 9007199254740992\<rparr>]
   \<and> show_int 9007199254740993 = ''9007199254740993''
   \<and> calls (get_api_file_url (bucket_app Exceeds) ''a.txt''
        (Some (QString (show_int (2 ^ 1024)))) []) =
     [GetSignedUrl \<lparr>Bucket = ''uploads'', Key = ''a.txt'', Expires = PosInfinity\<rparr>]
   \<and> response (get_api_file_url (bucket_app Exceeds) ''a.txt''
        (Some (QString (show_int (2 ^ 1024)))) []) =
       Json 200 (JObject [(''success'', JBool True),
                          (''url'', JString ''https://s3.amazonaws.com/uploads/a.txt''),
                          (''expires'', JNull)])"
proof -
  have zero: "expiration (Some (QString ''0'')) = Finite 3600"
    by (simp add: expiration_def ToString_query_def or_else_def parse_eval)
  have "parseInt ''9007199254740993'' = Finite 9007199254740992"
    by (simp add: parse_eval bitlen.simps Let_def)
  then have odd: "expiration (Some (QString ''9007199254740993'')) = Finite 9007199254740992"
    by (simp add: expiration_def ToString_query_def or_else_def)
  have s0: "show_int 0 = ''0''" and s1: "show_int 9007199254740993 = ''9007199254740993''"
    by (simp_all add: show_eval)
  have reply: "getSignedUrlPromise (s3 (bucket_app Exceeds))
      \<lparr>Bucket = BUCKET_NAME (bucket_app Exceeds), Key = ''a.txt'', Expires = e\<rparr> [] =
      (Inr ''https://s3.amazonaws.com/uploads/a.txt'', [])" for e
    by (simp add: bucket_app_def bucket_s3_def)
  have name: "BUCKET_NAME (bucket_app Exceeds) = ''uploads''"
    by (simp add: bucket_app_def)
  show ?thesis
    using file_url_success [OF reply, of "Some (QString ''0'')"]
      file_url_success [OF reply, of "Some (QString (show_int (2 ^ 1024)))"]
    by (simp only: file_url_call zero odd expiration_overflow s0 s1 name json_number.simps)
qed

text \<open>
  C10. When \<^verbatim>\<open>expires\<close> is present and parses to NaN or to zero, the gateway answers
  as for any other request, with 3600 both in the storage call and in the \<^verbatim>\<open>expires\<close>
  field of the response.
\<close>

theorem file_url_expires_fallback:
  assumes "parseInt (ToString v) \<in> {NaN, Finite 0, NegZero}"
  shows "calls (get_api_file_url app k (Some v) st) =
           [GetSignedUrl \<lparr>Bucket = BUCKET_NAME app, Key = k, Expires = Finite 3600\<rparr>]
    \<and> (getSignedUrlPromise (s3 app)
          \<lparr>Bucket = BUCKET_NAME app, Key = k, Expires = Finite 3600\<rparr> st = (Inr url, st')
        \<longrightarrow> response (get_api_file_url app k (Some v) st) =
             Json 200 (JObject [(''success'', JBool True), (''url'', JString url),
                                (''expires'', JNumber (Finite 3600))]))"
proof -
  have e: "expiration (Some v) = Finite 3600"
    using assms by (rule expiration_falsy)
  show ?thesis
    by (simp add: get_api_file_url_def Let_def e split: prod.split sum.split)
qed

theorem file_url_expires_fallback_witness:
  "parseInt (ToString (QString ''soon'')) = NaN
   \<and> calls (get_api_file_url (bucket_app Exceeds) ''a.txt'' (Some (QString ''soon'')) []) =
       [GetSignedUrl \<lparr>Bucket = ''uploads'', Key = ''a.txt'', Expires = Finite 3600\<rparr>]
   \<and> response (get_api_file_url (bucket_app Exceeds) ''a.txt'' (Some (QString ''soon'')) []) =
       Json 200 (JObject [(''success'', JBool True),
                          (''url'', JString ''https://s3.amazonaws.com/uploads/a.txt''),
                          (''expires'', JNumber (Finite 3600))])
   \<and> parseInt (ToString (QString ''0'')) = Finite 0
   \<and> calls (get_api_file_url (bucket_app Exceeds) ''a.txt'' (Some (QString ''0'')) []) =
       [GetSignedUrl \<lparr>Bucket = ''uploads'', Key = ''a.txt'', Expires = Finite 3600\<rparr>]"
proof -
  have nan: "parseInt (ToString (QString ''soon'')) = NaN"
    by (simp add: parse_eval)
  have zero: "parseInt (ToString (QString ''0'')) = Finite 0"
    by (simp add: parse_eval)
  have reply: "getSignedUrlPromise (s3 (bucket_app Exceeds))
      \<lparr>Bucket = BUCKET_NAME (bucket_app Exceeds), Key = ''a.txt'', Expires = Finite 3600\<rparr> [] =
      (Inr ''https://s3.amazonaws.com/uploads/a.txt'', [])"
    by (simp add: bucket_app_def bucket_s3_def)
  have a: "parseInt (ToString (QString ''soon'')) \<in> {NaN, Finite 0, NegZero}"
    using nan by simp
  have b: "parseInt (ToString (QString ''0'')) \<in> {NaN, Finite 0, NegZero}"
    using zero by simp
  show ?thesis
    using file_url_expires_fallback [OF a, of "bucket_app Exceeds" "''a.txt''" "[]"
        "''https://s3.amazonaws.com/uploads/a.txt''" "[]"]
      file_url_expires_fallback [OF b, of "bucket_app Exceeds" "''a.txt''" "[]"
        "''https://s3.amazonaws.com/uploads/a.txt''" "[]"]
      reply nan zero
    by (simp add: bucket_app_def)
qed

section \<open>Listing\<close>

text \<open>
  C8. The list handler makes one storage call, a listing with \<^verbatim>\<open>MaxKeys\<close> 1000 and nothing
  taken from the request, and on success returns the reported objects in their order,
  each projected to \<^verbatim>\<open>key\<close>, \<^verbatim>\<open>lastModified\<close>, \<^verbatim>\<open>size\<close> and \<^verbatim>\<open>etag\<close>.
\<close>

theorem list_files_projection:
  "calls (get_api_files app st) = [ListObjectsV2 \<lparr>Bucket = BUCKET_NAME app, MaxKeys = 1000\<rparr>]
   \<and> (listObjectsV2 (s3 app) \<lparr>Bucket = BUCKET_NAME app, MaxKeys = 1000\<rparr> st = (Inr Contents, st')
       \<longrightarrow> response (get_api_files app st) =
             Json 200 (JObject [(''success'', JBool True),
               (''files'', JArray (map (\<lambda>file. JObject [(''key'', JString (object_Key file)),
                                            (''lastModified'', JDate (LastModified file)),
                                            (''size'', JNumber (Finite (int (Size file)))),
                                            (''etag'', JString (object_ETag file))]) Contents)),
               (''count'', JNumber (Finite (int (length Contents))))]))"
  by (simp add: get_api_files_def Let_def file_entry_def split: prod.split sum.split)

theorem list_files_projection_witness:
  "calls (get_api_files (bucket_app Exceeds) [(''a.txt'', [1, 2, 3]), (''b.txt'', [])]) =
     [ListObjectsV2 \<lparr>Bucket = ''uploads'', MaxKeys = 1000\<rparr>]
   \<and> response (get_api_files (bucket_app Exceeds) [(''a.txt'', [1, 2, 3]), (''b.txt'', [])]) =
       Json 200 (JObject [(''success'', JBool True),
         (''files'', JArray [JObject [(''key'', JString ''a.txt''), (''lastModified'', JDate 0),
                                      (''size'', JNumber (Finite 3)), (''etag'', JString ''etag'')],
                             JObject [(''key'', JString ''b.txt''), (''lastModified'', JDate 0),
                                      (''size'', JNumber (Finite 0)), (''etag'', JString ''etag'')]]),
         (''count'', JNumber (Finite 2))])"
proof -
  let ?st = "[(''a.txt'', [1, 2, 3]), (''b.txt'', [])] :: bucket"
  let ?Contents = "[\<lparr>object_Key = ''a.txt'', LastModified = 0, Size = 3, object_ETag = ''etag'',
             StorageClass = ''STANDARD''\<rparr>,
            \<lparr>object_Key = ''b.txt'', LastModified = 0, Size = 0, object_ETag = ''etag'',
             StorageClass = ''STANDARD''\<rparr>]"
  have reply: "listObjectsV2 (s3 (bucket_app Exceeds))
      \<lparr>Bucket = BUCKET_NAME (bucket_app Exceeds), MaxKeys = 1000\<rparr> ?st = (Inr ?Contents, ?st)"
    by (simp add: bucket_app_def bucket_s3_def)
  show ?thesis
    using list_files_projection [of "bucket_app Exceeds" ?st ?Contents ?st] reply
    by (simp add: bucket_app_def)
qed

text \<open>
  C9. In a successful list response, \<^verbatim>\<open>count\<close> is the number of elements of \<^verbatim>\<open>files\<close>.
\<close>

theorem list_files_count:
  assumes "response (get_api_files app st) = Json 200 (JObject kvs)"
  shows "\<exists>files. map_of kvs ''files'' = Some (JArray files)
           \<and> map_of kvs ''count'' = Some (JNumber (Finite (int (length files))))"
  using assms
  by (auto simp: get_api_files_def Let_def split: prod.splits sum.splits)

theorem list_files_count_witness:
  "response (get_api_files (bucket_app Exceeds) [(''a.txt'', [1, 2, 3]), (''b.txt'', [])]) =
     Json 200 (JObject [(''success'', JBool True),
       (''files'', JArray [JObject [(''key'', JString ''a.txt''), (''lastModified'', JDate 0),
                                    (''size'', JNumber (Finite 3)), (''etag'', JString ''etag'')],
                           JObject [(''key'', JString ''b.txt''), (''lastModified'', JDate 0),
                                    (''size'', JNumber (Finite 0)), (''etag'', JString ''etag'')]]),
       (''count'', JNumber (Finite 2))])
   \<and> (\<exists>files. map_of [(''success'', JBool True),
       (''files'', JArray [JObject [(''key'', JString ''a.txt''), (''lastModified'', JDate 0),
                                    (''size'', JNumber (Finite 3)), (''etag'', JString ''etag'')],
                           JObject [(''key'', JString ''b.txt''), (''lastModified'', JDate 0),
                                    (''size'', JNumber (Finite 0)), (''etag'', JString ''etag'')]]),
       (''count'', JNumber (Finite 2))] ''files'' = Some (JArray files) \<and> length files = 2)"
proof -
  let ?kvs = "[(''success'', JBool True),
       (''files'', JArray [JObject [(''key'', JString ''a.txt''), (''lastModified'', JDate 0),
                                    (''size'', JNumber (Finite 3)), (''etag'', JString ''etag'')],
                           JObject [(''key'', JString ''b.txt''), (''lastModified'', JDate 0),
                                    (''size'', JNumber (Finite 0)), (''etag'', JString ''etag'')]]),
       (''count'', JNumber (Finite 2))]"
  have r: "response (get_api_files (bucket_app Exceeds) [(''a.txt'', [1, 2, 3]), (''b.txt'', [])]) =
     Json 200 (JObject ?kvs)"
    by (simp add: get_api_files_def bucket_app_def bucket_s3_def file_entry_def)
  from list_files_count [OF r] obtain files where
    "map_of ?kvs ''files'' = Some (JArray files)"
    "map_of ?kvs ''count'' = Some (JNumber (Finite (int (length files))))"
    by blast
  then have "map_of ?kvs ''files'' = Some (JArray files) \<and> length files = 2"
    by simp
  with r show ?thesis by blast
qed

section \<open>Upload\<close>

lemma upload_multipart_file:
  assumes "originalname f \<noteq> []"
  shows "post_api_upload_multipart app now (FilePart ''file'' f) st =
    post_api_upload app now (Some f) st"
  using assms by (simp add: post_api_upload_multipart_def expected_file_def)




text \<open>
  C6. A successful upload stored its file under the key made of the time stamp, a hyphen
  and the original file name. The handler looks at the name no further and asks the
  service nothing about the key: whenever the middleware hands it a file, its one storage
  call is the upload under that key, and if the service accepts, the upload succeeds.
\<close>

theorem upload_key:
  "(status (response (post_api_upload app now body st)) = Some 200 \<longrightarrow>
      (\<exists>f. body = Some f \<and>
         calls (post_api_upload app now body st) =
           [Upload \<lparr>Bucket = BUCKET_NAME app, Key = show_int now @ ''-'' @ originalname f,
                    Body = buffer f, ContentType = mimetype f, ACL = ''private''\<rparr>]))
   \<and> (upload_single (parser app) body = Inr (Some f) \<and>
       upload (s3 app) \<lparr>Bucket = BUCKET_NAME app, Key = show_int now @ ''-'' @ originalname f,
                        Body = buffer f, ContentType = mimetype f, ACL = ''private''\<rparr> st
         = (Inr result, st') \<longrightarrow>
       post_api_upload app now body st =
         \<lparr>response = Json 200 (JObject [(''success'', JBool True),
             (''message'', JString ''File uploaded successfully''),
             (''data'', JObject [(''key'', JString (show_int now @ ''-'' @ originalname f)),
                                 (''location'', JString (Location result)),
                                 (''bucket'', JString (upload_Bucket result)),
                                 (''etag'', JString (upload_ETag result))])]),
          calls = [Upload \<lparr>Bucket = BUCKET_NAME app,
                           Key = show_int now @ ''-'' @ originalname f,
                           Body = buffer f, ContentType = mimetype f, ACL = ''private''\<rparr>],
          store = st'\<rparr>)"
proof (intro conjI impI)
  assume ok: "status (response (post_api_upload app now body st)) = Some 200"
  show "\<exists>f. body = Some f \<and>
         calls (post_api_upload app now body st) =
           [Upload \<lparr>Bucket = BUCKET_NAME app, Key = show_int now @ ''-'' @ originalname f,
                    Body = buffer f, ContentType = mimetype f, ACL = ''private''\<rparr>]"
  proof (cases body)
    case None
    with ok show ?thesis by (simp add: post_api_upload_def upload_single_def)
  next
    case (Some f)
    with ok show ?thesis
      by (auto simp: post_api_upload_def upload_single_def Let_def
          split: if_splits prod.splits sum.splits)
  qed
next
  assume "upload_single (parser app) body = Inr (Some f) \<and>
       upload (s3 app) \<lparr>Bucket = BUCKET_NAME app, Key = show_int now @ ''-'' @ originalname f,
                        Body = buffer f, ContentType = mimetype f, ACL = ''private''\<rparr> st
         = (Inr result, st')"
  then show "post_api_upload app now body st =
         \<lparr>response = Json 200 (JObject [(''success'', JBool True),
             (''message'', JString ''File uploaded successfully''),
             (''data'', JObject [(''key'', JString (show_int now @ ''-'' @ originalname f)),
                                 (''location'', JString (Location result)),
                                 (''bucket'', JString (upload_Bucket result)),
                                 (''etag'', JString (upload_ETag result))])]),
          calls = [Upload \<lparr>Bucket = BUCKET_NAME app,
                           Key = show_int now @ ''-'' @ originalname f,
                           Body = buffer f, ContentType = mimetype f, ACL = ''private''\<rparr>],
          store = st'\<rparr>"
    by (simp add: post_api_upload_def Let_def)
qed

theorem upload_key_witness:
  "post_api_upload (bucket_app Exceeds) 1700000000000
      (Some \<lparr>originalname = ''a b.txt'', mimetype = ''text/plain'', buffer = [104, 105]\<rparr>)
      [(''1700000000000-a b.txt'', [])] =
     \<lparr>response = Json 200 (JObject [(''success'', JBool True),
         (''message'', JString ''File uploaded successfully''),
         (''data'', JObject [(''key'', JString ''1700000000000-a b.txt''),
             (''location'', JString ''https://s3.amazonaws.com/uploads/1700000000000-a b.txt''),
             (''bucket'', JString ''uploads''),
             (''etag'', JString ''etag'')])]),
      calls = [Upload \<lparr>Bucket = ''uploads'', Key = ''1700000000000-a b.txt'',
                       Body = [104, 105], ContentType = ''text/plain'', ACL = ''private''\<rparr>],
      store = [(''1700000000000-a b.txt'', [104, 105])]\<rparr>"
proof -
  let ?f = "\<lparr>originalname = ''a b.txt'', mimetype = ''text/plain'', buffer = [104, 105]\<rparr>"
  let ?st = "[(''1700000000000-a b.txt'', [])] :: bucket"
  have stamp: "show_int 1700000000000 = ''1700000000000''"
    by (simp add: show_eval)
  have admitted: "upload_single (parser (bucket_app Exceeds)) (Some ?f) = Inr (Some ?f)"
    by (simp add: upload_single_def fileFilter_def limit_hit_def fileSize_def bucket_app_def)
  have reply: "upload (s3 (bucket_app Exceeds))
      \<lparr>Bucket = BUCKET_NAME (bucket_app Exceeds),
       Key = show_int 1700000000000 @ ''-'' @ originalname ?f,
       Body = buffer ?f, ContentType = mimetype ?f, ACL = ''private''\<rparr> ?st =
      (Inr \<lparr>Location = ''https://s3.amazonaws.com/uploads/1700000000000-a b.txt'',
            upload_Bucket = ''uploads'', upload_ETag = ''etag''\<rparr>,
       [(''1700000000000-a b.txt'', [104, 105])])"
    by (simp add: bucket_app_def bucket_s3_def remove_key_def stamp)
  show ?thesis
    using upload_key [of "bucket_app Exceeds" 1700000000000 "Some ?f" ?st ?f] admitted reply
    by (simp add: stamp bucket_app_def)
qed

section \<open>Delete\<close>

text \<open>
  C5. The delete handler issues the delete call at once: it is its only storage call, so
  no existence check precedes it. Whenever the service acknowledges, the response is the
  success response with the key. On the bucket stand-in, which acknowledges the delete of
  a key it does not hold, the response is that success response for every key and every
  content of the bucket, and deleting the key again gives the same response.
\<close>

theorem delete_unconditional:
  "calls (delete_api_delete app k st) = [DeleteObject \<lparr>Bucket = BUCKET_NAME app, Key = k\<rparr>]
   \<and> (deleteObject (s3 app) \<lparr>Bucket = BUCKET_NAME app, Key = k\<rparr> st = (Inr (), st') \<longrightarrow>
        response (delete_api_delete app k st) =
          Json 200 (JObject [(''success'', JBool True),
                             (''message'', JString ''File deleted successfully''),
                             (''key'', JString k)])
        \<and> store (delete_api_delete app k st) = st')
   \<and> response (delete_api_delete (bucket_app t) k b) =
          Json 200 (JObject [(''success'', JBool True),
                             (''message'', JString ''File deleted successfully''),
                             (''key'', JString k)])
   \<and> map_of (store (delete_api_delete (bucket_app t) k b)) k = None
   \<and> response (delete_api_delete (bucket_app t) k (store (delete_api_delete (bucket_app t) k b))) =
       response (delete_api_delete (bucket_app t) k b)"
proof -
  have absent: "map_of (remove_key k b) k = None" for b :: bucket
    by (induction b) (auto simp: remove_key_def)
  show ?thesis
    by (simp add: delete_api_delete_def Let_def bucket_app_def bucket_s3_def absent
        split: prod.split sum.split)
qed

theorem delete_unconditional_witness:
  "calls (delete_api_delete (bucket_app Exceeds) ''gone.txt'' [(''a.txt'', [1])]) =
     [DeleteObject \<lparr>Bucket = ''uploads'', Key = ''gone.txt''\<rparr>]
   \<and> map_of [(''a.txt'', [1 :: 8 word])] ''gone.txt'' = None
   \<and> delete_api_delete (bucket_app Exceeds) ''gone.txt'' [(''a.txt'', [1])] =
       \<lparr>response = Json 200 (JObject [(''success'', JBool True),
                             (''message'', JString ''File deleted successfully''),
                             (''key'', JString ''gone.txt'')]),
        calls = [DeleteObject \<lparr>Bucket = ''uploads'', Key = ''gone.txt''\<rparr>],
        store = [(''a.txt'', [1])]\<rparr>"
proof -
  let ?st = "[(''a.txt'', [1])] :: bucket"
  have reply: "deleteObject (s3 (bucket_app Exceeds))
      \<lparr>Bucket = BUCKET_NAME (bucket_app Exceeds), Key = ''gone.txt''\<rparr> ?st = (Inr (), ?st)"
    by (simp add: bucket_app_def bucket_s3_def remove_key_def)
  have "calls (delete_api_delete (bucket_app Exceeds) ''gone.txt'' ?st) =
          [DeleteObject \<lparr>Bucket = ''uploads'', Key = ''gone.txt''\<rparr>]
      \<and> response (delete_api_delete (bucket_app Exceeds) ''gone.txt'' ?st) =
          Json 200 (JObject [(''success'', JBool True),
                             (''message'', JString ''File deleted successfully''),
                             (''key'', JString ''gone.txt'')])
      \<and> store (delete_api_delete (bucket_app Exceeds) ''gone.txt'' ?st) = ?st"
    using delete_unconditional [of "bucket_app Exceeds" "''gone.txt''" ?st ?st] reply
    by (simp add: bucket_app_def)
  then show ?thesis
    by (cases "delete_api_delete (bucket_app Exceeds) ''gone.txt'' ?st") simp
qed

section \<open>Download\<close>

text \<open>
  C3, as amended. When the existence probe reports not-found the response status is 404.
  The status is 500 exactly when the probe fails with another error, or when the probe
  succeeds and the key cannot be written into the \<^verbatim>\<open>Content-Disposition\<close> header.
\<close>

theorem download_status:
  "(headObject (s3 app) \<lparr>Bucket = BUCKET_NAME app, Key = k\<rparr> st = (Inl e, st') \<and>
      code e = ''NotFound'' \<longrightarrow>
      response (get_api_download app k st) = Json 404 (JObject [(''error'', JString ''File not found'')])
      \<and> status (response (get_api_download app k st)) = Some 404)
   \<and> (status (response (get_api_download app k st)) = Some 500 \<longleftrightarrow>
        (\<exists>e st'. headObject (s3 app) \<lparr>Bucket = BUCKET_NAME app, Key = k\<rparr> st = (Inl e, st') \<and>
            code e \<noteq> ''NotFound'')
        \<or> (\<exists>st'. headObject (s3 app) \<lparr>Bucket = BUCKET_NAME app, Key = k\<rparr> st = (Inr (), st') \<and>
            \<not> valid_header_value (content_disposition k)))"
proof -
  obtain h st1 where h: "headObject (s3 app) \<lparr>Bucket = BUCKET_NAME app, Key = k\<rparr> st = (h, st1)"
    by (cases "headObject (s3 app) \<lparr>Bucket = BUCKET_NAME app, Key = k\<rparr> st")
  show ?thesis
  proof (cases h)
    case (Inl headError)
    with h show ?thesis
      by (auto simp: get_api_download_def Let_def)
  next
    case (Inr u)
    with h show ?thesis
      by (auto simp: get_api_download_def Let_def split: prod.splits sum.splits)
  qed
qed

theorem download_status_witness:
  "headObject (s3 (bucket_app Exceeds)) \<lparr>Bucket = ''uploads'', Key = ''gone.txt''\<rparr> [(''a.txt'', [1])] =
     (Inl \<lparr>code = ''NotFound'', message = ''Not Found''\<rparr>, [(''a.txt'', [1])])
   \<and> response (get_api_download (bucket_app Exceeds) ''gone.txt'' [(''a.txt'', [1])]) =
       Json 404 (JObject [(''error'', JString ''File not found'')])
   \<and> status (response (get_api_download (bucket_app Exceeds) ''gone.txt'' [(''a.txt'', [1])])) \<noteq> Some 500"
proof -
  let ?st = "[(''a.txt'', [1])] :: bucket"
  let ?e = "\<lparr>code = ''NotFound'', message = ''Not Found''\<rparr>"
  have probe: "headObject (s3 (bucket_app Exceeds))
      \<lparr>Bucket = BUCKET_NAME (bucket_app Exceeds), Key = ''gone.txt''\<rparr> ?st = (Inl ?e, ?st)"
    by (simp add: bucket_app_def bucket_s3_def)
  have "code ?e = ''NotFound''" by simp
  with probe download_status [of "bucket_app Exceeds" "''gone.txt''" ?st ?e ?st]
  have "response (get_api_download (bucket_app Exceeds) ''gone.txt'' ?st) =
       Json 404 (JObject [(''error'', JString ''File not found'')])"
    by blast
  with probe show ?thesis by (simp add: bucket_app_def)
qed

text \<open>
  C3 as stated fails in its second half: a stored key with a line feed passes the probe,
  and the request ends with status 500 although the storage service reported no error.
\<close>

theorem download_status_counterexample:
  "headObject (s3 (bucket_app Exceeds))
      \<lparr>Bucket = ''uploads'', Key = [CHR ''a'', CHR 0x0A, CHR ''b'']\<rparr>
      [([CHR ''a'', CHR 0x0A, CHR ''b''], [1])] =
     (Inr (), [([CHR ''a'', CHR 0x0A, CHR ''b''], [1])])
   \<and> getObject (s3 (bucket_app Exceeds))
      \<lparr>Bucket = ''uploads'', Key = [CHR ''a'', CHR 0x0A, CHR ''b'']\<rparr>
      [([CHR ''a'', CHR 0x0A, CHR ''b''], [1])] =
     (Inr [1], [([CHR ''a'', CHR 0x0A, CHR ''b''], [1])])
   \<and> status (response (get_api_download (bucket_app Exceeds) [CHR ''a'', CHR 0x0A, CHR ''b'']
        [([CHR ''a'', CHR 0x0A, CHR ''b''], [1])])) = Some 500"
  by (simp add: get_api_download_def bucket_app_def bucket_s3_def valid_header_value_def
      content_disposition_def header_char_def Let_def)

section \<open>Errors\<close>

text \<open>
  C7, as amended. Every failure that a storage call returns to its handler (the upload,
  the listing, the existence probe with a code other than \<^verbatim>\<open>NotFound\<close>, the URL signing,
  the delete) is answered with status 500 and a JSON body whose \<^verbatim>\<open>details\<close> is the
  message of the error. A probe that fails with \<^verbatim>\<open>NotFound\<close> is answered with status 404
  and the fixed body \<^verbatim>\<open>{error: 'File not found'}\<close>. An upload without a file is answered
  with status 400.
\<close>

theorem storage_failures:
  "(upload_single (parser app) body = Inr (Some f) \<and>
      upload (s3 app) \<lparr>Bucket = BUCKET_NAME app, Key = show_int now @ ''-'' @ originalname f,
                       Body = buffer f, ContentType = mimetype f, ACL = ''private''\<rparr> st
        = (Inl e, st') \<longrightarrow>
      response (post_api_upload app now body st) =
        Json 500 (JObject [(''error'', JString ''Failed to upload file''),
                           (''details'', JString (message e))]))
   \<and> (listObjectsV2 (s3 app) \<lparr>Bucket = BUCKET_NAME app, MaxKeys = 1000\<rparr> st = (Inl e, st') \<longrightarrow>
      response (get_api_files app st) =
        Json 500 (JObject [(''error'', JString ''Failed to retrieve files''),
                           (''details'', JString (message e))]))
   \<and> (headObject (s3 app) \<lparr>Bucket = BUCKET_NAME app, Key = k\<rparr> st = (Inl e, st') \<and>
        code e \<noteq> ''NotFound'' \<longrightarrow>
      response (get_api_download app k st) =
        Json 500 (JObject [(''error'', JString ''Failed to download file''),
                           (''details'', JString (message e))]))
   \<and> (headObject (s3 app) \<lparr>Bucket = BUCKET_NAME app, Key = k\<rparr> st = (Inl e, st') \<and>
        code e = ''NotFound'' \<longrightarrow>
      response (get_api_download app k st) =
        Json 404 (JObject [(''error'', JString ''File not found'')]))
   \<and> (getSignedUrlPromise (s3 app)
        \<lparr>Bucket = BUCKET_NAME app, Key = k, Expires = expiration q\<rparr> st = (Inl e, st') \<longrightarrow>
      response (get_api_file_url app k q st) =
        Json 500 (JObject [(''error'', JString ''Failed to generate file URL''),
                           (''details'', JString (message e))]))
   \<and> (deleteObject (s3 app) \<lparr>Bucket = BUCKET_NAME app, Key = k\<rparr> st = (Inl e, st') \<longrightarrow>
      response (delete_api_delete app k st) =
        Json 500 (JObject [(''error'', JString ''Failed to delete file''),
                           (''details'', JString (message e))]))
   \<and> response (post_api_upload app now None st) =
        Json 400 (JObject [(''error'', JString ''No file provided'')])"
proof (intro conjI impI)
  assume "upload_single (parser app) body = Inr (Some f) \<and>
      upload (s3 app) \<lparr>Bucket = BUCKET_NAME app, Key = show_int now @ ''-'' @ originalname f,
                       Body = buffer f, ContentType = mimetype f, ACL = ''private''\<rparr> st
        = (Inl e, st')"
  then show "response (post_api_upload app now body st) =
        Json 500 (JObject [(''error'', JString ''Failed to upload file''),
                           (''details'', JString (message e))])"
    by (simp add: post_api_upload_def Let_def)
next
  assume "listObjectsV2 (s3 app) \<lparr>Bucket = BUCKET_NAME app, MaxKeys = 1000\<rparr> st = (Inl e, st')"
  then show "response (get_api_files app st) =
        Json 500 (JObject [(''error'', JString ''Failed to retrieve files''),
                           (''details'', JString (message e))])"
    by (simp add: get_api_files_def Let_def)
next
  assume "headObject (s3 app) \<lparr>Bucket = BUCKET_NAME app, Key = k\<rparr> st = (Inl e, st') \<and>
        code e \<noteq> ''NotFound''"
  then show "response (get_api_download app k st) =
        Json 500 (JObject [(''error'', JString ''Failed to download file''),
                           (''details'', JString (message e))])"
    by (simp add: get_api_download_def Let_def)
next
  assume "headObject (s3 app) \<lparr>Bucket = BUCKET_NAME app, Key = k\<rparr> st = (Inl e, st') \<and>
        code e = ''NotFound''"
  then show "response (get_api_download app k st) =
        Json 404 (JObject [(''error'', JString ''File not found'')])"
    by (simp add: get_api_download_def Let_def)
next
  assume "getSignedUrlPromise (s3 app)
        \<lparr>Bucket = BUCKET_NAME app, Key = k, Expires = expiration q\<rparr> st = (Inl e, st')"
  then show "response (get_api_file_url app k q st) =
        Json 500 (JObject [(''error'', JString ''Failed to generate file URL''),
                           (''details'', JString (message e))])"
    by (simp add: get_api_file_url_def Let_def)
next
  assume "deleteObject (s3 app) \<lparr>Bucket = BUCKET_NAME app, Key = k\<rparr> st = (Inl e, st')"
  then show "response (delete_api_delete app k st) =
        Json 500 (JObject [(''error'', JString ''Failed to delete file''),
                           (''details'', JString (message e))])"
    by (simp add: delete_api_delete_def Let_def)
next
  show "response (post_api_upload app now None st) =
        Json 400 (JObject [(''error'', JString ''No file provided'')])"
    by (simp add: post_api_upload_def upload_single_def)
qed

theorem storage_failures_witness:
  "response (post_api_upload (failing_app \<lparr>code = ''AccessDenied'', message = ''Access Denied''\<rparr>) 5
      (Some \<lparr>originalname = ''a.txt'', mimetype = ''text/plain'', buffer = [1]\<rparr>) []) =
     Json 500 (JObject [(''error'', JString ''Failed to upload file''),
                        (''details'', JString ''Access Denied'')])
   \<and> response (get_api_files (failing_app \<lparr>code = ''AccessDenied'', message = ''Access Denied''\<rparr>) []) =
     Json 500 (JObject [(''error'', JString ''Failed to retrieve files''),
                        (''details'', JString ''Access Denied'')])
   \<and> response (get_api_download (failing_app \<lparr>code = ''AccessDenied'', message = ''Access Denied''\<rparr>)
        ''a.txt'' []) =
     Json 500 (JObject [(''error'', JString ''Failed to download file''),
                        (''details'', JString ''Access Denied'')])
   \<and> response (get_api_download (failing_app \<lparr>code = ''NotFound'', message = ''no such key''\<rparr>)
        ''a.txt'' []) =
     Json 404 (JObject [(''error'', JString ''File not found'')])
   \<and> response (get_api_file_url (failing_app \<lparr>code = ''AccessDenied'', message = ''Access Denied''\<rparr>)
        ''a.txt'' None []) =
     Json 500 (JObject [(''error'', JString ''Failed to generate file URL''),
                        (''details'', JString ''Access Denied'')])
   \<and> response (delete_api_delete (failing_app \<lparr>code = ''AccessDenied'', message = ''Access Denied''\<rparr>)
        ''a.txt'' []) =
     Json 500 (JObject [(''error'', JString ''Failed to delete file''),
                        (''details'', JString ''Access Denied'')])"
proof -
  let ?e = "\<lparr>code = ''AccessDenied'', message = ''Access Denied''\<rparr>"
  let ?n = "\<lparr>code = ''NotFound'', message = ''no such key''\<rparr>"
  let ?f = "\<lparr>originalname = ''a.txt'', mimetype = ''text/plain'', buffer = [1]\<rparr>"
  let ?st = "[] :: bucket"
  have admitted: "upload_single (parser (failing_app ?e)) (Some ?f) = Inr (Some ?f)"
    by (simp add: upload_single_def fileFilter_def limit_hit_def fileSize_def failing_app_def)
  have up: "upload (s3 (failing_app ?e))
      \<lparr>Bucket = BUCKET_NAME (failing_app ?e), Key = show_int 5 @ ''-'' @ originalname ?f,
       Body = buffer ?f, ContentType = mimetype ?f, ACL = ''private''\<rparr> ?st = (Inl ?e, ?st)"
    by (simp add: failing_app_def failing_s3_def)
  have ls: "listObjectsV2 (s3 (failing_app ?e))
      \<lparr>Bucket = BUCKET_NAME (failing_app ?e), MaxKeys = 1000\<rparr> ?st = (Inl ?e, ?st)"
    by (simp add: failing_app_def failing_s3_def)
  have hd: "headObject (s3 (failing_app ?e))
      \<lparr>Bucket = BUCKET_NAME (failing_app ?e), Key = ''a.txt''\<rparr> ?st = (Inl ?e, ?st)
      \<and> code ?e \<noteq> ''NotFound''"
    by (simp add: failing_app_def failing_s3_def)
  have nf: "headObject (s3 (failing_app ?n))
      \<lparr>Bucket = BUCKET_NAME (failing_app ?n), Key = ''a.txt''\<rparr> ?st = (Inl ?n, ?st)
      \<and> code ?n = ''NotFound''"
    by (simp add: failing_app_def failing_s3_def)
  have url: "getSignedUrlPromise (s3 (failing_app ?e))
      \<lparr>Bucket = BUCKET_NAME (failing_app ?e), Key = ''a.txt'', Expires = expiration None\<rparr> ?st =
      (Inl ?e, ?st)"
    by (simp add: failing_app_def failing_s3_def)
  have del: "deleteObject (s3 (failing_app ?e))
      \<lparr>Bucket = BUCKET_NAME (failing_app ?e), Key = ''a.txt''\<rparr> ?st = (Inl ?e, ?st)"
    by (simp add: failing_app_def failing_s3_def)
  note t = storage_failures [of "failing_app ?e" "Some ?f" ?f 5 ?st ?e ?st "''a.txt''" None]
  note n = storage_failures [of "failing_app ?n" "Some ?f" ?f 5 ?st ?n ?st "''a.txt''" None]
  from t admitted up have 1: "response (post_api_upload (failing_app ?e) 5 (Some ?f) ?st) =
     Json 500 (JObject [(''error'', JString ''Failed to upload file''),
                        (''details'', JString (message ?e))])"
    by blast
  from t ls have 2: "response (get_api_files (failing_app ?e) ?st) =
     Json 500 (JObject [(''error'', JString ''Failed to retrieve files''),
                        (''details'', JString (message ?e))])"
    by blast
  from t hd have 3: "response (get_api_download (failing_app ?e) ''a.txt'' ?st) =
     Json 500 (JObject [(''error'', JString ''Failed to download file''),
                        (''details'', JString (message ?e))])"
    by blast
  from n nf have 4: "response (get_api_download (failing_app ?n) ''a.txt'' ?st) =
     Json 404 (JObject [(''error'', JString ''File not found'')])"
    by blast
  from t url have 5: "response (get_api_file_url (failing_app ?e) ''a.txt'' None ?st) =
     Json 500 (JObject [(''error'', JString ''Failed to generate file URL''),
                        (''details'', JString (message ?e))])"
    by blast
  from t del have 6: "response (delete_api_delete (failing_app ?e) ''a.txt'' ?st) =
     Json 500 (JObject [(''error'', JString ''Failed to delete file''),
                        (''details'', JString (message ?e))])"
    by blast
  from 1 2 3 4 5 6 show ?thesis by simp
qed

text \<open>
  C7 as stated fails in the download handler. For a probe that reports not-found the body
  is the fixed object and does not carry the message of the error. And when the probe
  succeeds but the object's stream fails, the error is emitted after the handler has
  returned: no response with status 500 is written.
\<close>

theorem storage_failures_counterexample:
  "response (get_api_download (failing_app \<lparr>code = ''NotFound'', message = ''no such key''\<rparr>)
        ''a.txt'' []) =
     Json 404 (JObject [(''error'', JString ''File not found'')])
   \<and> \<not> carries (response (get_api_download
          (failing_app \<lparr>code = ''NotFound'', message = ''no such key''\<rparr>) ''a.txt'' []))
        ''no such key''
   \<and> response (get_api_download
        \<lparr>BUCKET_NAME = ''uploads'',
         s3 = bucket_s3\<lparr>getObject := \<lambda>p st.
                (Inl \<lparr>code = ''InternalError'', message = ''We encountered an internal error.''\<rparr>, st)\<rparr>,
         parser = Exceeds\<rparr>
        ''a.txt'' [(''a.txt'', [1])]) =
     StreamError [(''Content-Disposition'', ''attachment; filename='' @ [CHR 0x22] @ ''a.txt'' @ [CHR 0x22]),
                  (''Content-Type'', ''application/octet-stream'')]
       \<lparr>code = ''InternalError'', message = ''We encountered an internal error.''\<rparr>
   \<and> status (response (get_api_download
        \<lparr>BUCKET_NAME = ''uploads'',
         s3 = bucket_s3\<lparr>getObject := \<lambda>p st.
                (Inl \<lparr>code = ''InternalError'', message = ''We encountered an internal error.''\<rparr>, st)\<rparr>,
         parser = Exceeds\<rparr>
        ''a.txt'' [(''a.txt'', [1])])) \<noteq> Some 500"
  by (simp add: get_api_download_def failing_app_def failing_s3_def bucket_s3_def Let_def
      carries_def valid_header_value_def content_disposition_def header_char_def)

section \<open>The size limit\<close>

text \<open>
  C2, as amended. For a file longer than 10 MiB the middleware passes the error on: the
  handler does not run, no storage call is made and the state of the service is
  unchanged. A file shorter than 10 MiB passes the size test and reaches the handler.
  This holds for either size test; at exactly 10 MiB the two tests differ.
\<close>

theorem upload_size_limit:
  "(fileSize < length (buffer f) \<longrightarrow>
      upload_single (parser app) (Some f) = Inl LIMIT_FILE_SIZE \<and>
      post_api_upload app now (Some f) st =
        \<lparr>response = NextError LIMIT_FILE_SIZE, calls = [], store = st\<rparr>)
   \<and> (length (buffer f) < fileSize \<longrightarrow>
      \<not> limit_hit (parser app) fileSize (length (buffer f)) \<and>
      upload_single (parser app) (Some f) = Inr (Some f))"
proof -
  have over: "limit_hit (parser app) fileSize (length (buffer f))" if "fileSize < length (buffer f)"
    using that by (cases "parser app") (simp_all add: limit_hit_def)
  have under: "\<not> limit_hit (parser app) fileSize (length (buffer f))" if "length (buffer f) < fileSize"
    using that by (cases "parser app") (simp_all add: limit_hit_def)
  show ?thesis
    using over under
    by (auto simp: post_api_upload_def upload_single_def fileFilter_def)
qed

theorem upload_size_limit_witness:
  "post_api_upload (bucket_app Exceeds) 1700000000000
      (Some \<lparr>originalname = ''big.bin'', mimetype = ''application/octet-stream'',
             buffer = replicate 10485761 0\<rparr>) [(''a.txt'', [1])] =
     \<lparr>response = NextError LIMIT_FILE_SIZE, calls = [], store = [(''a.txt'', [1])]\<rparr>
   \<and> upload_single Reaches
       (Some \<lparr>originalname = ''small.bin'', mimetype = ''application/octet-stream'',
              buffer = replicate 10485759 0\<rparr>) =
     Inr (Some \<lparr>originalname = ''small.bin'', mimetype = ''application/octet-stream'',
                buffer = replicate 10485759 0\<rparr>)"
proof -
  let ?big = "\<lparr>originalname = ''big.bin'', mimetype = ''application/octet-stream'',
             buffer = replicate 10485761 (0 :: 8 word)\<rparr>"
  let ?small = "\<lparr>originalname = ''small.bin'', mimetype = ''application/octet-stream'',
             buffer = replicate 10485759 (0 :: 8 word)\<rparr>"
  let ?st = "[(''a.txt'', [1])] :: bucket"
  have big: "fileSize < length (buffer ?big)"
    by (simp add: fileSize_def)
  have small: "length (buffer ?small) < fileSize"
    by (simp add: fileSize_def)
  note b = upload_size_limit [of ?big "bucket_app Exceeds" 1700000000000 ?st]
  note s = upload_size_limit [of ?small "bucket_app Reaches" 1700000000000 ?st]
  from b big have 1: "post_api_upload (bucket_app Exceeds) 1700000000000 (Some ?big) ?st =
     \<lparr>response = NextError LIMIT_FILE_SIZE, calls = [], store = ?st\<rparr>"
    by blast
  from s small have "upload_single (parser (bucket_app Reaches)) (Some ?small) = Inr (Some ?small)"
    by blast
  then have 2: "upload_single Reaches (Some ?small) = Inr (Some ?small)"
    by (simp add: bucket_app_def)
  from 1 2 show ?thesis by simp
qed

text \<open>
  C2 as stated fails for a file of exactly 10 MiB, which it asks to be rejected and to be
  admitted. Under the test that reports the limit when it is exceeded the file reaches
  the handler and is uploaded; under the test that reports the limit when it is reached
  the file is rejected.
\<close>

theorem upload_size_limit_counterexample:
  "upload_single Exceeds
       (Some \<lparr>originalname = ''ten.bin'', mimetype = ''application/octet-stream'',
              buffer = replicate (10 * 1024 * 1024) 0\<rparr>) =
     Inr (Some \<lparr>originalname = ''ten.bin'', mimetype = ''application/octet-stream'',
                buffer = replicate (10 * 1024 * 1024) 0\<rparr>)
   \<and> calls (post_api_upload (bucket_app Exceeds) 5
       (Some \<lparr>originalname = ''ten.bin'', mimetype = ''application/octet-stream'',
              buffer = replicate (10 * 1024 * 1024) 0\<rparr>) []) =
     [Upload \<lparr>Bucket = ''uploads'', Key = ''5-ten.bin'', Body = replicate (10 * 1024 * 1024) 0,
              ContentType = ''application/octet-stream'', ACL = ''private''\<rparr>]
   \<and> upload_single Reaches
       (Some \<lparr>originalname = ''ten.bin'', mimetype = ''application/octet-stream'',
              buffer = replicate (10 * 1024 * 1024) 0\<rparr>) =
     Inl LIMIT_FILE_SIZE"
proof -
  have stamp: "show_int 5 = ''5''"
    by (simp add: show_eval)
  show ?thesis
    by (simp add: post_api_upload_def upload_single_def fileFilter_def limit_hit_def fileSize_def
        bucket_app_def bucket_s3_def stamp Let_def)
qed

end
